theory Spec2Isabelle
  imports Complex_Main
begin

section \<open>The grid of \<^verbatim>\<open>uxarray/grid.py\<close>\<close>

text \<open>
  The development embeds the methods of class \<^verbatim>\<open>Grid\<close> that compute face areas,
  integrate a field and treat faces crossing the antimeridian.

  Conventions of the embedding.
  \<^item> A \<^verbatim>\<open>float64\<close> is a \<^typ>\<open>real\<close>, the number it stands for: comparison, selection
    and data flow are as in the code. The sums that numpy forms of an array, which round
    and whose order of addition is the library's, are arguments of the methods.
  \<^item> A one-dimensional array is a list, a two-dimensional array a list of rows.
  \<^item> An exception is a value \<open>Inl e\<close> of the sum type; a method that assigns to
    \<^verbatim>\<open>self._face_areas\<close> returns the grid after the call beside its result.
  \<^item> \<^verbatim>\<open>get_all_face_area_from_coords\<close> is imported from \<^verbatim>\<open>uxarray/helpers.py\<close>; the
    methods take it as their first argument.
\<close>

subsection \<open>Exceptions\<close>

text \<open>
  The exception classes that the statements of \<^verbatim>\<open>grid.py\<close> and the numpy calls in them
  raise; \<open>Raised name\<close> is an exception of any other class, coming out of a collaborator.
\<close>

datatype error = AttributeError | IndexError | TypeError | ValueError | Raised string

subsection \<open>The grid object\<close>

record grid =
  Mesh2_node_x :: "real list"
  Mesh2_node_x_units :: string
  Mesh2_node_y :: "real list"
  Mesh2_node_z :: "real list option"
  Mesh2_face_nodes :: "int list list"
  topology_dimension :: int
  cached_face_areas :: "real list option"

text \<open>
  \<open>cached_face_areas\<close> is the attribute \<^verbatim>\<open>_face_areas\<close> (\<open>None\<close> as in Python),
  \<open>Mesh2_node_z\<close> is \<open>None\<close> when the dataset has no such variable, and the dimension
  \<^verbatim>\<open>nMesh2_node\<close> is the length of \<open>Mesh2_node_x\<close>. The face-node table
  \<open>Mesh2_face_nodes\<close> holds integers, one row for each face; an unused entry of a row
  holds the fill value, which the readers set to \<open>-1\<close>.
\<close>

type_synonym face_area_helper =
  "real list \<Rightarrow> real list \<Rightarrow> real list \<Rightarrow> int list list \<Rightarrow> int \<Rightarrow> string \<Rightarrow> int \<Rightarrow> string
    \<Rightarrow> error + real list"

definition nMesh2_node :: "grid \<Rightarrow> nat" where
  "nMesh2_node g = length (Mesh2_node_x g)"

subsection \<open>Integer casts and string search\<close>

text \<open>\<^verbatim>\<open>astype(np.uint32)\<close>, \<^verbatim>\<open>astype(np.int32)\<close> and \<^verbatim>\<open>astype(int)\<close> on integer data wrap.\<close>

definition astype_uint32 :: "int \<Rightarrow> int" where
  "astype_uint32 i = i mod 2 ^ 32"

definition astype_int32 :: "int \<Rightarrow> int" where
  "astype_int32 i = (i + 2 ^ 31) mod 2 ^ 32 - 2 ^ 31"

definition astype_int64 :: "int \<Rightarrow> int" where
  "astype_int64 i = (i + 2 ^ 63) mod 2 ^ 64 - 2 ^ 63"

text \<open>Python's \<^verbatim>\<open>needle in haystack\<close> on strings.\<close>

fun str_contains :: "string \<Rightarrow> string \<Rightarrow> bool" where
  "str_contains needle [] = (needle = [])"
| "str_contains needle (c # cs) =
     (take (length needle) (c # cs) = needle \<or> str_contains needle cs)"

subsection \<open>Face areas and their cache\<close>

definition coords_type_of :: "grid \<Rightarrow> string" where
  "coords_type_of g =
     (if \<not> str_contains ''degree'' (Mesh2_node_x_units g) then ''cartesian'' else ''spherical'')"

text \<open>The third coordinate handed to the helper: zeros unless the topology dimension exceeds 2.\<close>

definition z_coords :: "grid \<Rightarrow> error + real list" where
  "z_coords g =
     (if topology_dimension g > 2
      then (case Mesh2_node_z g of None \<Rightarrow> Inl AttributeError | Some z \<Rightarrow> Inr z)
      else Inr (replicate (nMesh2_node g) 0))"

text \<open>The call of the helper in the body of \<^verbatim>\<open>compute_face_areas\<close>, with its arguments.\<close>

definition helper_call :: "face_area_helper \<Rightarrow> grid \<Rightarrow> string \<Rightarrow> int \<Rightarrow> error + real list" where
  "helper_call H g quadrature_rule ord =
     (let coords_type = coords_type_of g;
          face_nodes = map (map astype_uint32) (Mesh2_face_nodes g);
          dim = topology_dimension g;
          x = Mesh2_node_x g;
          y = Mesh2_node_y g
      in case z_coords g of
           Inl e \<Rightarrow> Inl e
         | Inr z \<Rightarrow> H x y z face_nodes dim quadrature_rule ord coords_type)"

definition compute_face_areas ::
    "face_area_helper \<Rightarrow> grid \<Rightarrow> string \<Rightarrow> int \<Rightarrow> (error + real list) \<times> grid" where
  "compute_face_areas H g quadrature_rule ord =
     (case cached_face_areas g of
        None \<Rightarrow>
          (case helper_call H g quadrature_rule ord of
             Inl e \<Rightarrow> (Inl e, g)
           | Inr a \<Rightarrow> (Inr a, g\<lparr>cached_face_areas := Some a\<rparr>))
      | Some a \<Rightarrow> (Inr a, g))"

text \<open>
  \<^verbatim>\<open>np.sum\<close> of a one-dimensional array and \<^verbatim>\<open>np.dot\<close> of two one-dimensional arrays of
  one length add \<^verbatim>\<open>float64\<close> values: every addition rounds, and the order of the additions
  (pairwise in \<^verbatim>\<open>np.sum\<close>, that of the BLAS routine in \<^verbatim>\<open>np.dot\<close>) is not fixed by
  \<^verbatim>\<open>grid.py\<close>. The methods that call them take the reduction as an argument, \<open>S\<close> for
  \<^verbatim>\<open>np.sum\<close> and \<open>D\<close> for \<^verbatim>\<open>np.dot\<close>, and nothing is assumed of it.
\<close>

type_synonym np_sum_impl = "real list \<Rightarrow> real"

type_synonym np_dot_impl = "real list \<Rightarrow> real list \<Rightarrow> real"

definition calculate_total_face_area ::
    "face_area_helper \<Rightarrow> np_sum_impl \<Rightarrow> grid \<Rightarrow> string \<Rightarrow> int \<Rightarrow> (error + real) \<times> grid" where
  "calculate_total_face_area H S g quadrature_rule ord =
     (case compute_face_areas H g quadrature_rule ord of
        (Inl e, g') \<Rightarrow> (Inl e, g')
      | (Inr areas, g') \<Rightarrow> (Inr (S areas), g'))"

text \<open>The property \<^verbatim>\<open>face_areas\<close>: it returns the attribute, whatever it holds.\<close>

definition face_areas :: "face_area_helper \<Rightarrow> grid \<Rightarrow> (error + real list option) \<times> grid" where
  "face_areas H g =
     (case cached_face_areas g of
        None \<Rightarrow>
          (case compute_face_areas H g ''triangular'' 4 of
             (Inl e, g') \<Rightarrow> (Inl e, g')
           | (Inr _, g') \<Rightarrow> (Inr (cached_face_areas g'), g'))
      | Some a \<Rightarrow> (Inr (cached_face_areas g), g))"

subsection \<open>Integration\<close>

text \<open>
  \<^verbatim>\<open>var_ds\<close> is a dataset: its variables in their order, each a name with a
  one-dimensional array of values. \<^verbatim>\<open>np.dot\<close> of two one-dimensional arrays raises
  \<^verbatim>\<open>ValueError\<close> when their lengths differ, and reduces them otherwise. What
  \<^verbatim>\<open>print\<close> writes is returned as the third component.
\<close>

type_synonym dataset = "(string \<times> real list) list"

definition np_dot :: "np_dot_impl \<Rightarrow> real list \<Rightarrow> real list \<Rightarrow> error + real" where
  "np_dot D a b = (if length a = length b then Inr (D a b) else Inl ValueError)"

definition integrate_warning :: string where
  "integrate_warning =
     ''WARNING: The xarray dataset file has more than one variable, using the first variable for integration''"

definition integrate ::
    "face_area_helper \<Rightarrow> np_dot_impl \<Rightarrow> grid \<Rightarrow> dataset \<Rightarrow> string \<Rightarrow> int
      \<Rightarrow> (error + real) \<times> grid \<times> string list"
  where
  "integrate H D g var_ds quadrature_rule ord =
     (case compute_face_areas H g quadrature_rule ord of
        (Inl e, g') \<Rightarrow> (Inl e, g', [])
      | (Inr areas, g') \<Rightarrow>
          (let var_key = map fst var_ds;
               printed = (if length var_key > 1 then [integrate_warning] else [])
           in case var_key of
                [] \<Rightarrow> (Inl IndexError, g', printed)
              | k # _ \<Rightarrow>
                  (case map_of var_ds k of
                     None \<Rightarrow> (Inl (Raised ''KeyError''), g', printed)
                   | Some face_vals \<Rightarrow> (np_dot D areas face_vals, g', printed))))"

subsection \<open>Indexing an array with an array of integers\<close>

text \<open>
  \<^verbatim>\<open>a[i]\<close> on a one-dimensional numpy array of length \<open>n\<close>: an index from \<open>-n\<close> up to
  \<open>-1\<close> counts from the end, an index outside \<open>-n\<close> .. \<open>n - 1\<close> raises \<^verbatim>\<open>IndexError\<close>.
  \<open>take_1d\<close> and \<open>take_2d\<close> are \<^verbatim>\<open>a[idx]\<close> for an index array of one and two dimensions.
\<close>

definition np_index :: "'a list \<Rightarrow> int \<Rightarrow> error + 'a" where
  "np_index a i =
     (let n = int (length a)
      in if 0 \<le> i \<and> i < n then Inr (a ! nat i)
         else if - n \<le> i \<and> i < 0 then Inr (a ! nat (i + n))
         else Inl IndexError)"

fun take_1d :: "'a list \<Rightarrow> int list \<Rightarrow> error + 'a list" where
  "take_1d a [] = Inr []"
| "take_1d a (i # idx) =
     (case np_index a i of
        Inl e \<Rightarrow> Inl e
      | Inr v \<Rightarrow> (case take_1d a idx of Inl e \<Rightarrow> Inl e | Inr vs \<Rightarrow> Inr (v # vs)))"

fun take_2d :: "'a list \<Rightarrow> int list list \<Rightarrow> error + 'a list list" where
  "take_2d a [] = Inr []"
| "take_2d a (row # rows) =
     (case take_1d a row of
        Inl e \<Rightarrow> Inl e
      | Inr vs \<Rightarrow> (case take_2d a rows of Inl e \<Rightarrow> Inl e | Inr vss \<Rightarrow> Inr (vs # vss)))"

subsection \<open>Detecting the faces that cross the antimeridian\<close>

text \<open>
  \<^verbatim>\<open>np.pad(a, (0, 1), 'wrap')\<close> on a two-dimensional array appends, along each axis, one
  entry that wraps around to the first; an axis of length 0 cannot be extended and
  raises \<^verbatim>\<open>ValueError\<close>.
\<close>

definition np_pad_wrap :: "'a list list \<Rightarrow> error + 'a list list" where
  "np_pad_wrap a =
     (if a = [] \<or> list_ex (\<lambda>row. row = []) a then Inl ValueError
      else Inr (map (\<lambda>row. row @ [hd row]) (a @ [hd a])))"

text \<open>\<^verbatim>\<open>np.diff\<close> along the last axis: \<open>out[j] = row[j + 1] - row[j]\<close>.\<close>

definition np_diff :: "real list \<Rightarrow> real list" where
  "np_diff row = map2 (\<lambda>a b. b - a) row (tl row)"

text \<open>\<^verbatim>\<open>np.any(m, axis=1)\<close> and \<^verbatim>\<open>np.argwhere\<close> of a one-dimensional mask.\<close>

definition np_any_axis1 :: "bool list list \<Rightarrow> bool list" where
  "np_any_axis1 m = map (list_ex (\<lambda>b. b)) m"

definition np_argwhere :: "bool list \<Rightarrow> nat list" where
  "np_argwhere m = filter (\<lambda>k. m ! k) [0..<length m]"

text \<open>
  \<^verbatim>\<open>tuple(np.argwhere(m).squeeze())\<close>: \<^verbatim>\<open>argwhere\<close> has shape \<open>(K, 1)\<close>; squeezed it has
  shape \<open>(K)\<close>, but for \<open>K = 1\<close> no axis is left, and \<^verbatim>\<open>tuple\<close> of an array without axes
  raises \<^verbatim>\<open>TypeError\<close>.
\<close>

definition tuple_squeeze :: "nat list \<Rightarrow> error + nat list" where
  "tuple_squeeze found = (if length found = 1 then Inl TypeError else Inr found)"

text \<open>
  The mask returned beside the indices is \<^verbatim>\<open>crossed_mask_2d[crossed_indices, :].squeeze()\<close>:
  the selected rows, of shape \<open>(K, Mmax)\<close> with \<open>K \<noteq> 1\<close>, lose the second axis when
  \<open>Mmax = 1\<close>.
\<close>

datatype bool_array = Array1 "bool list" | Array2 "bool list list"

definition squeeze_rows :: "nat \<Rightarrow> bool list list \<Rightarrow> bool_array" where
  "squeeze_rows mmax rows = (if mmax = 1 then Array1 (map hd rows) else Array2 rows)"

text \<open>The per-face part of the detection: the mask of the sides of one row of longitudes.\<close>

definition side_mask :: "real \<Rightarrow> real list \<Rightarrow> bool list" where
  "side_mask threshold row = map (\<lambda>d. d > threshold) (map abs (np_diff row))"

definition compute_antimeridian_faces :: "grid \<Rightarrow> real \<Rightarrow> error + nat list \<times> bool_array" where
  "compute_antimeridian_faces g threshold =
     (let face_nodes = map (map astype_int32) (Mesh2_face_nodes g)
      in case take_2d (Mesh2_node_x g) face_nodes of
           Inl e \<Rightarrow> Inl e
         | Inr face_lon \<Rightarrow>
             (case np_pad_wrap face_lon of
                Inl e \<Rightarrow> Inl e
              | Inr padded \<Rightarrow>
                  (let face_lon_pad = butlast padded;
                       crossed_mask_2d = map (side_mask threshold) face_lon_pad;
                       crossed_mask_1d = np_any_axis1 crossed_mask_2d
                   in case tuple_squeeze (np_argwhere crossed_mask_1d) of
                        Inl e \<Rightarrow> Inl e
                      | Inr crossed_indices \<Rightarrow>
                          Inr (crossed_indices,
                               squeeze_rows (length (hd crossed_mask_2d))
                                 (map (\<lambda>k. crossed_mask_2d ! k) crossed_indices)))))"

subsection \<open>Splitting the faces that cross the antimeridian\<close>

definition np_clip :: "real \<Rightarrow> real \<Rightarrow> real \<Rightarrow> real" where
  "np_clip a_min a_max x = min a_max (max x a_min)"

text \<open>The local variables of \<^verbatim>\<open>split_antimeridian_faces\<close> that its last statements assign.\<close>

record split_locals =
  left_x :: "real list list"
  right_x :: "real list list"
  left_exclude :: "bool list"
  right_exclude :: "bool list"

definition split_candidates :: "grid \<Rightarrow> nat list \<Rightarrow> error + split_locals" where
  "split_candidates g antimeridian_faces =
     (let antimeridian_indices =
            map (map astype_int64) (map (\<lambda>k. Mesh2_face_nodes g ! k) antimeridian_faces)
      in case take_2d (Mesh2_node_x g) antimeridian_indices of
           Inl e \<Rightarrow> Inl e
         | Inr face_x \<Rightarrow>
             (case take_2d (Mesh2_node_y g) antimeridian_indices of
                Inl e \<Rightarrow> Inl e
              | Inr face_y \<Rightarrow>
                  (let lx = map (map (\<lambda>x. if x > 0 then x - 360 else x)) face_x;
                       rx = map (map (\<lambda>x. if x < 0 then x + 360 else x)) face_x;
                       lx = map (map (np_clip (- 180) 180)) lx;
                       rx = map (map (np_clip (- 180) 180)) rx
                   in Inr \<lparr>left_x = lx, right_x = rx,
                           left_exclude = map (list_all (\<lambda>x. x = - 180)) lx,
                           right_exclude = map (list_all (\<lambda>x. x = 180)) rx\<rparr>)))"

text \<open>
  What the method returns: the tuple \<^verbatim>\<open>(None, None, None)\<close> of its early return, or
  \<^verbatim>\<open>None\<close>, the value of a call whose body ends (here with \<^verbatim>\<open>pass\<close>) without a
  \<^verbatim>\<open>return\<close>.
\<close>

datatype split_result = NoneTriple | NoneValue

definition split_antimeridian_faces :: "grid \<Rightarrow> error + split_result" where
  "split_antimeridian_faces g =
     (case compute_antimeridian_faces g 180 of
        Inl e \<Rightarrow> Inl e
      | Inr (antimeridian_faces, mask_2d) \<Rightarrow>
          if length antimeridian_faces = 0 then Inr NoneTriple
          else (case split_candidates g antimeridian_faces of
                  Inl e \<Rightarrow> Inl e
                | Inr locals \<Rightarrow> Inr NoneValue))"

subsection \<open>Concrete inputs\<close>

text \<open>
  A helper for the concrete inputs below. It answers as the specification says of
  unsupported quadrature rules and orders, with an exception named
  \<^verbatim>\<open>ConfigurationError\<close>, and otherwise returns one area for each face, which depends
  on the order. The theorems range over every helper.
\<close>

definition example_helper :: face_area_helper where
  "example_helper x y z face_nodes dimn quadrature_rule ord coords_type =
     (if quadrature_rule = ''triangular'' \<and> 1 \<le> ord \<and> ord \<le> 4
      then Inr (map (\<lambda>_. real_of_int ord) face_nodes)
      else Inl (Raised ''ConfigurationError''))"

text \<open>A grid of one face with four nodes of the given longitudes, its cache empty.\<close>

definition quad_grid :: "real list \<Rightarrow> grid" where
  "quad_grid lon =
     \<lparr>Mesh2_node_x = lon, Mesh2_node_x_units = ''degrees_east'',
      Mesh2_node_y = [0, 0, 10, 10], Mesh2_node_z = None,
      Mesh2_face_nodes = [[0, 1, 2, 3]], topology_dimension = 2,
      cached_face_areas = None\<rparr>"

definition cached_grid :: grid where
  "cached_grid = (quad_grid [10, 20, 30, 40])\<lparr>cached_face_areas := Some [1]\<rparr>"

text \<open>
  The reductions of exact arithmetic. \<^verbatim>\<open>float64\<close> arithmetic gives their values where no
  operation rounds, as on the small whole numbers of the concrete inputs.
\<close>

definition exact_sum :: np_sum_impl where
  "exact_sum a = sum_list a"

definition exact_dot :: np_dot_impl where
  "exact_dot a b = sum_list (map2 (*) a b)"

definition two_fields :: dataset where
  "two_fields = [(''psi'', [3]), (''phi'', [5, 6])]"

text \<open>
  Two faces on a seam: the first crosses the antimeridian, all nodes of the second lie on
  it.
\<close>

definition seam_grid :: grid where
  "seam_grid =
     \<lparr>Mesh2_node_x = [170, - 170, - 175, 175, 180, - 180, 180, - 180],
      Mesh2_node_x_units = ''degrees_east'',
      Mesh2_node_y = [0, 0, 10, 10, 20, 20, 30, 30], Mesh2_node_z = None,
      Mesh2_face_nodes = [[0, 1, 2, 3], [4, 5, 6, 7]], topology_dimension = 2,
      cached_face_areas = None\<rparr>"

text \<open>
  Two triangles in a table of four columns, the unused column filled with \<open>-1\<close>; the
  last node belongs to neither face.
\<close>

definition fill_grid :: grid where
  "fill_grid =
     \<lparr>Mesh2_node_x = [10, 20, 15, 30, 25, - 179],
      Mesh2_node_x_units = ''degrees_east'',
      Mesh2_node_y = [0, 0, 10, 10, 20, 0], Mesh2_node_z = None,
      Mesh2_face_nodes = [[0, 1, 2, - 1], [1, 3, 4, - 1]], topology_dimension = 2,
      cached_face_areas = None\<rparr>"

section \<open>Properties\<close>

subsection \<open>The cache of face areas\<close>

lemma compute_cached:
  "cached_face_areas g = Some a \<Longrightarrow> compute_face_areas H g quadrature_rule ord = (Inr a, g)"
  by (simp add: compute_face_areas_def)

lemma compute_empty_ok:
  "cached_face_areas g = None \<Longrightarrow> helper_call H g quadrature_rule ord = Inr a \<Longrightarrow>
   compute_face_areas H g quadrature_rule ord = (Inr a, g\<lparr>cached_face_areas := Some a\<rparr>)"
  by (simp add: compute_face_areas_def)

lemma compute_twice:
  assumes "compute_face_areas H g quadrature_rule ord = (Inr areas, g')"
  shows "compute_face_areas H' g' quadrature_rule' ord' = (Inr areas, g')"
  using assms by (auto simp: compute_face_areas_def split: option.splits sum.splits)

lemma helper_call_example_cached:
  "helper_call example_helper (quad_grid lon\<lparr>cached_face_areas := c\<rparr>) quadrature_rule ord =
     (if quadrature_rule = ''triangular'' \<and> 1 \<le> ord \<and> ord \<le> 4 then Inr [real_of_int ord]
      else Inl (Raised ''ConfigurationError''))"
  by (simp add: helper_call_def example_helper_def quad_grid_def z_coords_def)

lemma helper_call_example_quad:
  "helper_call example_helper (quad_grid lon) quadrature_rule ord =
     (if quadrature_rule = ''triangular'' \<and> 1 \<le> ord \<and> ord \<le> 4 then Inr [real_of_int ord]
      else Inl (Raised ''ConfigurationError''))"
  by (simp add: helper_call_def example_helper_def quad_grid_def z_coords_def)

lemma compute_example_quad:
  "compute_face_areas example_helper (quad_grid lon) ''triangular'' 4 =
     (Inr [4], (quad_grid lon)\<lparr>cached_face_areas := Some [4]\<rparr>)"
  by (rule compute_empty_ok) (simp_all add: helper_call_example_quad, simp add: quad_grid_def)

text \<open>
  Claim C1, as the code has it. \<^verbatim>\<open>compute_face_areas\<close> computes the areas with the given
  quadrature rule and order, and stores them, only when the cache is empty. For a grid
  whose cache is populated it returns the cached array and leaves the grid as it is,
  whatever the rule and the order: the helper is not called.
\<close>

theorem compute_face_areas_returns_cache:
  "(cached_face_areas g = Some a \<longrightarrow> compute_face_areas H g quadrature_rule ord = (Inr a, g)) \<and>
   (cached_face_areas g = None \<longrightarrow> helper_call H g quadrature_rule ord = Inr b \<longrightarrow>
      compute_face_areas H g quadrature_rule ord = (Inr b, g\<lparr>cached_face_areas := Some b\<rparr>))"
  by (simp add: compute_cached compute_empty_ok)

theorem compute_face_areas_returns_cache_witness:
  "cached_face_areas cached_grid = Some [1] \<and>
   compute_face_areas example_helper cached_grid ''triangular'' 2 = (Inr [1], cached_grid) \<and>
   cached_face_areas (quad_grid [10, 20, 30, 40]) = None \<and>
   helper_call example_helper (quad_grid [10, 20, 30, 40]) ''triangular'' 2 = Inr [2] \<and>
   compute_face_areas example_helper (quad_grid [10, 20, 30, 40]) ''triangular'' 2 =
     (Inr [2], (quad_grid [10, 20, 30, 40])\<lparr>cached_face_areas := Some [2]\<rparr>)"
proof -
  have c: "cached_face_areas cached_grid = Some [1]"
    by (simp add: cached_grid_def)
  have n: "cached_face_areas (quad_grid [10, 20, 30, 40]) = None"
    by (simp add: quad_grid_def)
  have h: "helper_call example_helper (quad_grid [10, 20, 30, 40]) ''triangular'' 2 = Inr [2]"
    by (simp add: helper_call_example_quad)
  from compute_face_areas_returns_cache
         [of cached_grid "[1]" example_helper "''triangular''" 2] c
  have 1: "compute_face_areas example_helper cached_grid ''triangular'' 2 = (Inr [1], cached_grid)"
    by blast
  from compute_face_areas_returns_cache
         [of "quad_grid [10, 20, 30, 40]" "[]" example_helper "''triangular''" 2 "[2]"] n h
  have 2: "compute_face_areas example_helper (quad_grid [10, 20, 30, 40]) ''triangular'' 2 =
     (Inr [2], (quad_grid [10, 20, 30, 40])\<lparr>cached_face_areas := Some [2]\<rparr>)"
    by blast
  from c n h 1 2 show ?thesis by blast
qed

text \<open>
  The claim as it was stated fails: on a grid whose cache holds \<open>[1]\<close>, a call with
  order 2 returns \<open>[1]\<close> and keeps the cache, where the helper computes \<open>[2]\<close> for
  that rule and order.
\<close>

theorem compute_face_areas_recompute_counterexample:
  "compute_face_areas example_helper cached_grid ''triangular'' 2 = (Inr [1], cached_grid) \<and>
   helper_call example_helper cached_grid ''triangular'' 2 = Inr [2]"
  by (simp add: compute_cached cached_grid_def helper_call_example_cached)

text \<open>
  Claim C4, as the code has it. An exception of the helper (for an unsupported order
  the specification names it \<^verbatim>\<open>ConfigurationError\<close>) comes out of \<^verbatim>\<open>compute_face_areas\<close>
  only when the cache is empty, and the grid stays as it was. When a cache exists the
  call raises nothing: it returns the cache and leaves it untouched.
\<close>

theorem compute_face_areas_helper_error:
  assumes "helper_call H g quadrature_rule ord = Inl e"
  shows "compute_face_areas H g quadrature_rule ord =
           (case cached_face_areas g of None \<Rightarrow> (Inl e, g) | Some a \<Rightarrow> (Inr a, g))"
  using assms by (simp add: compute_face_areas_def split: option.splits)

theorem compute_face_areas_helper_error_witness:
  "helper_call example_helper (quad_grid [10, 20, 30, 40]) ''triangular'' 99
     = Inl (Raised ''ConfigurationError'') \<and>
   compute_face_areas example_helper (quad_grid [10, 20, 30, 40]) ''triangular'' 99
     = (Inl (Raised ''ConfigurationError''), quad_grid [10, 20, 30, 40]) \<and>
   helper_call example_helper cached_grid ''triangular'' 99 = Inl (Raised ''ConfigurationError'') \<and>
   compute_face_areas example_helper cached_grid ''triangular'' 99 = (Inr [1], cached_grid)"
proof -
  have h: "helper_call example_helper (quad_grid [10, 20, 30, 40]) ''triangular'' 99
     = Inl (Raised ''ConfigurationError'')"
    by (simp add: helper_call_example_quad)
  have h': "helper_call example_helper cached_grid ''triangular'' 99
     = Inl (Raised ''ConfigurationError'')"
    by (simp add: cached_grid_def helper_call_example_cached)
  have 1: "compute_face_areas example_helper (quad_grid [10, 20, 30, 40]) ''triangular'' 99
     = (Inl (Raised ''ConfigurationError''), quad_grid [10, 20, 30, 40])"
    using compute_face_areas_helper_error [OF h] by (simp add: quad_grid_def)
  have 2: "compute_face_areas example_helper cached_grid ''triangular'' 99 = (Inr [1], cached_grid)"
    using compute_face_areas_helper_error [OF h'] by (simp add: cached_grid_def)
  from h h' 1 2 show ?thesis by blast
qed

text \<open>
  The claim as it was stated fails on a grid with a cache: order 99, for which the
  helper would raise, is accepted, and the cached array is returned.
\<close>

theorem compute_face_areas_unsupported_order_counterexample:
  "helper_call example_helper cached_grid ''triangular'' 99 = Inl (Raised ''ConfigurationError'') \<and>
   compute_face_areas example_helper cached_grid ''triangular'' 99 = (Inr [1], cached_grid)"
  by (simp add: compute_cached cached_grid_def helper_call_example_cached)

text \<open>
  Claim C8. On a grid whose cache is empty, the first access of the property
  \<^verbatim>\<open>face_areas\<close> has the areas computed with the rule \<^verbatim>\<open>"triangular"\<close> and order 4,
  stores them in the cache and returns them; an access after it returns the cached
  array and changes nothing, and does not depend on the helper.
\<close>

theorem face_areas_first_access:
  assumes "cached_face_areas g = None"
      and "helper_call H g ''triangular'' 4 = Inr a"
  shows "face_areas H g = (Inr (Some a), g\<lparr>cached_face_areas := Some a\<rparr>) \<and>
         face_areas H' (g\<lparr>cached_face_areas := Some a\<rparr>) =
           (Inr (Some a), g\<lparr>cached_face_areas := Some a\<rparr>)"
  using assms by (simp add: face_areas_def compute_empty_ok)

theorem face_areas_first_access_witness:
  "cached_face_areas (quad_grid [10, 20, 30, 40]) = None \<and>
   helper_call example_helper (quad_grid [10, 20, 30, 40]) ''triangular'' 4 = Inr [4] \<and>
   face_areas example_helper (quad_grid [10, 20, 30, 40]) =
     (Inr (Some [4]), (quad_grid [10, 20, 30, 40])\<lparr>cached_face_areas := Some [4]\<rparr>) \<and>
   face_areas (\<lambda>x y z face_nodes dimn quadrature_rule ord coords_type. Inl ValueError)
       ((quad_grid [10, 20, 30, 40])\<lparr>cached_face_areas := Some [4]\<rparr>) =
     (Inr (Some [4]), (quad_grid [10, 20, 30, 40])\<lparr>cached_face_areas := Some [4]\<rparr>)"
proof -
  have n: "cached_face_areas (quad_grid [10, 20, 30, 40]) = None"
    by (simp add: quad_grid_def)
  have h: "helper_call example_helper (quad_grid [10, 20, 30, 40]) ''triangular'' 4 = Inr [4]"
    by (simp add: helper_call_example_quad)
  from face_areas_first_access [OF n h] n h show ?thesis by blast
qed

subsection \<open>Integration\<close>

lemma integrate_ok:
  assumes "compute_face_areas H g quadrature_rule ord = (Inr areas, g')"
  shows "integrate H D g ((k, vals) # rest) quadrature_rule ord =
           (np_dot D areas vals, g', if rest = [] then [] else [integrate_warning])"
  using assms by (cases rest) (simp_all add: integrate_def)

lemma integrate_err:
  assumes "compute_face_areas H g quadrature_rule ord = (Inl e, g')"
  shows "integrate H D g var_ds quadrature_rule ord = (Inl e, g', [])"
  using assms by (simp add: integrate_def)

lemma total_ok:
  assumes "compute_face_areas H g quadrature_rule ord = (Inr areas, g')"
  shows "calculate_total_face_area H S g quadrature_rule ord = (Inr (S areas), g')"
  using assms by (simp add: calculate_total_face_area_def)

text \<open>
  \<^verbatim>\<open>integrate\<close> and \<^verbatim>\<open>calculate_total_face_area\<close> reduce the same array of areas, the one
  with \<^verbatim>\<open>np.dot\<close> against the field and the other with \<^verbatim>\<open>np.sum\<close>. The two reductions
  agree on a field of ones in exact arithmetic; of \<^verbatim>\<open>float64\<close> reductions, which round in
  different orders, this says nothing.
\<close>

lemma integrate_total_same_areas:
  assumes "compute_face_areas H g quadrature_rule ord = (Inr areas, g')"
      and "length vals = length areas"
  shows "integrate H D g [(name, vals)] quadrature_rule ord = (Inr (D areas vals), g', [])"
    and "calculate_total_face_area H S g quadrature_rule ord = (Inr (S areas), g')"
  using assms by (simp_all add: integrate_ok total_ok np_dot_def)

lemma exact_dot_ones: "exact_dot areas (replicate (length areas) 1) = exact_sum areas"
proof -
  have "map2 (*) areas (replicate (length areas) (1::real)) = areas"
    by (induction areas) simp_all
  then show ?thesis by (simp add: exact_dot_def exact_sum_def)
qed

text \<open>
  Claim C6. A dataset with more than one variable is integrated exactly as the dataset
  that holds only its first variable: the same result (or the same exception) and the
  same grid afterwards, so the other variables cause no failure. Once the areas are
  there, the warning is printed, and when the first variable has one value for each
  area the call returns \<^verbatim>\<open>np.dot\<close> of the areas with the first variable.
\<close>

theorem integrate_many_fields_first:
  assumes "1 < length var_ds"
  shows "fst (integrate H D g var_ds quadrature_rule ord) =
           fst (integrate H D g [hd var_ds] quadrature_rule ord) \<and>
         fst (snd (integrate H D g var_ds quadrature_rule ord)) =
           fst (snd (integrate H D g [hd var_ds] quadrature_rule ord)) \<and>
         (\<forall>areas. fst (compute_face_areas H g quadrature_rule ord) = Inr areas \<longrightarrow>
            snd (snd (integrate H D g var_ds quadrature_rule ord)) = [integrate_warning] \<and>
            (length (snd (hd var_ds)) = length areas \<longrightarrow>
               fst (integrate H D g var_ds quadrature_rule ord) =
                 Inr (D areas (snd (hd var_ds)))))"
proof -
  from assms obtain k vals rest where ds: "var_ds = (k, vals) # rest" and rest: "rest \<noteq> []"
    by (cases var_ds) (auto simp: neq_Nil_conv)
  obtain r g' where c: "compute_face_areas H g quadrature_rule ord = (r, g')"
    by (cases "compute_face_areas H g quadrature_rule ord")
  show ?thesis
  proof (cases r)
    case (Inl e)
    with c show ?thesis by (simp add: integrate_err)
  next
    case (Inr areas)
    with c have c': "compute_face_areas H g quadrature_rule ord = (Inr areas, g')" by simp
    show ?thesis
      using rest by (simp add: ds integrate_ok [OF c'] c' np_dot_def)
  qed
qed

theorem integrate_many_fields_first_witness:
  "1 < length two_fields \<and>
   integrate example_helper exact_dot (quad_grid [10, 20, 30, 40]) two_fields ''triangular'' 4 =
     (Inr 12, (quad_grid [10, 20, 30, 40])\<lparr>cached_face_areas := Some [4]\<rparr>, [integrate_warning])"
proof -
  have l: "1 < length two_fields" by (simp add: two_fields_def)
  have c: "fst (compute_face_areas example_helper (quad_grid [10, 20, 30, 40]) ''triangular'' 4)
             = Inr [4]"
    by (simp add: compute_example_quad)
  have i: "integrate example_helper exact_dot (quad_grid [10, 20, 30, 40]) [hd two_fields]
             ''triangular'' 4 =
     (Inr 12, (quad_grid [10, 20, 30, 40])\<lparr>cached_face_areas := Some [4]\<rparr>, [])"
    by (simp add: two_fields_def integrate_ok [OF compute_example_quad] np_dot_def exact_dot_def)
  from integrate_many_fields_first
         [OF l, of example_helper exact_dot "quad_grid [10, 20, 30, 40]" "''triangular''" 4] c i l
  show ?thesis
    by (cases "integrate example_helper exact_dot (quad_grid [10, 20, 30, 40]) two_fields
                 ''triangular'' 4")
       auto
qed

text \<open>
  Claim C3, as the code has it. When the area computation succeeds with one area for each
  of the \<open>F\<close> faces and the first variable of the dataset is a one-dimensional array
  whose length is not \<open>F\<close>, \<^verbatim>\<open>integrate\<close> raises the \<^verbatim>\<open>ValueError\<close> of \<^verbatim>\<open>np.dot\<close>;
  \<^verbatim>\<open>grid.py\<close> compares no lengths itself and has no exception of its own.
\<close>

theorem integrate_wrong_length_ValueError:
  assumes "compute_face_areas H g quadrature_rule ord = (Inr areas, g')"
      and "length areas = length (Mesh2_face_nodes g)"
      and "length vals \<noteq> length (Mesh2_face_nodes g)"
  shows "fst (integrate H D g ((k, vals) # rest) quadrature_rule ord) = Inl ValueError"
  using assms by (simp add: integrate_ok np_dot_def)

theorem integrate_wrong_length_ValueError_witness:
  "length [1, 1 :: real] \<noteq> length (Mesh2_face_nodes (quad_grid [10, 20, 30, 40])) \<and>
   fst (integrate example_helper exact_dot (quad_grid [10, 20, 30, 40]) [(''psi'', [1, 1])]
          ''triangular'' 4) =
     Inl ValueError"
proof -
  have l: "length [4::real] = length (Mesh2_face_nodes (quad_grid [10, 20, 30, 40]))"
    by (simp add: quad_grid_def)
  have n: "length [1, 1 :: real] \<noteq> length (Mesh2_face_nodes (quad_grid [10, 20, 30, 40]))"
    by (simp add: quad_grid_def)
  from integrate_wrong_length_ValueError
         [OF compute_example_quad l n, of exact_dot "''psi''" "[]"] n
  show ?thesis by blast
qed

text \<open>
  The claim as it was stated fails on the exception: a field of two values on a grid of
  one face raises \<^verbatim>\<open>ValueError\<close>, which is not a \<^verbatim>\<open>ShapeMismatchError\<close>.
\<close>

theorem integrate_wrong_length_counterexample:
  "fst (integrate example_helper exact_dot (quad_grid [10, 20, 30, 40]) [(''psi'', [1, 1])]
          ''triangular'' 4)
     = Inl ValueError \<and>
   fst (integrate example_helper exact_dot (quad_grid [10, 20, 30, 40]) [(''psi'', [1, 1])]
          ''triangular'' 4)
     \<noteq> Inl (Raised ''ShapeMismatchError'')"
  by (simp add: integrate_ok [OF compute_example_quad] np_dot_def)

subsection \<open>The antimeridian\<close>

lemma take_1d_Inr:
  "take_1d a idx = Inr vs \<Longrightarrow>
   length vs = length idx \<and> (\<forall>j<length idx. np_index a (idx ! j) = Inr (vs ! j))"
proof (induction idx arbitrary: vs)
  case Nil
  then show ?case by simp
next
  case (Cons i idx)
  from Cons.prems obtain v vs' where v: "np_index a i = Inr v" and vs': "take_1d a idx = Inr vs'"
    and vs: "vs = v # vs'"
    by (auto split: sum.splits)
  from Cons.IH [OF vs'] v vs show ?case
    by (auto simp: nth_Cons split: nat.splits)
qed

lemma take_2d_Inr:
  "take_2d a idx = Inr vss \<Longrightarrow>
   length vss = length idx \<and> (\<forall>k<length idx. take_1d a (idx ! k) = Inr (vss ! k))"
proof (induction idx arbitrary: vss)
  case Nil
  then show ?case by simp
next
  case (Cons row rows)
  from Cons.prems obtain vs vss' where v: "take_1d a row = Inr vs" and vs': "take_2d a rows = Inr vss'"
    and vs: "vss = vs # vss'"
    by (auto split: sum.splits)
  from Cons.IH [OF vs'] v vs show ?case
    by (auto simp: nth_Cons split: nat.splits)
qed

lemma np_pad_wrap_Inr:
  assumes "np_pad_wrap a = Inr p"
  shows "butlast p = map (\<lambda>row. row @ [hd row]) a" and "a \<noteq> []" and "\<forall>row\<in>set a. row \<noteq> []"
  using assms by (auto simp: np_pad_wrap_def list_ex_iff split: if_splits)

lemma np_diff_nth:
  "Suc j < length xs \<Longrightarrow> np_diff xs ! j = xs ! Suc j - xs ! j"
  by (simp add: np_diff_def nth_tl)

lemma np_diff_closed:
  assumes "row \<noteq> []"
  shows "length (np_diff (row @ [hd row])) = length row"
    and "j < length row \<Longrightarrow>
         np_diff (row @ [hd row]) ! j = row ! (Suc j mod length row) - row ! j"
proof -
  show "length (np_diff (row @ [hd row])) = length row"
    using assms by (simp add: np_diff_def)
  assume j: "j < length row"
  have 1: "(row @ [hd row]) ! Suc j = row ! (Suc j mod length row)"
  proof (cases "Suc j < length row")
    case True
    then show ?thesis by (simp add: nth_append)
  next
    case False
    with j have "Suc j = length row" by simp
    then show ?thesis using assms by (simp add: nth_append hd_conv_nth)
  qed
  have 2: "(row @ [hd row]) ! j = row ! j"
    using j by (simp add: nth_append)
  have "np_diff (row @ [hd row]) ! j = (row @ [hd row]) ! Suc j - (row @ [hd row]) ! j"
    using j by (intro np_diff_nth) simp
  with 1 2 show "np_diff (row @ [hd row]) ! j = row ! (Suc j mod length row) - row ! j"
    by simp
qed

lemma ex_set_nth: "(\<exists>b\<in>set xs. P b) \<longleftrightarrow> (\<exists>j<length xs. P (xs ! j))"
  by (metis in_set_conv_nth)

lemma any_side_mask:
  assumes "row \<noteq> []"
  shows "list_ex (\<lambda>b. b) (side_mask threshold (row @ [hd row])) \<longleftrightarrow>
         (\<exists>j<length row. threshold < \<bar>row ! (Suc j mod length row) - row ! j\<bar>)"
proof -
  have "list_ex (\<lambda>b. b) (side_mask threshold (row @ [hd row])) \<longleftrightarrow>
        (\<exists>j<length (np_diff (row @ [hd row])). threshold < \<bar>np_diff (row @ [hd row]) ! j\<bar>)"
    unfolding side_mask_def list_ex_iff by (simp add: ex_set_nth)
  then show ?thesis
    using np_diff_closed [OF assms] by auto
qed

text \<open>The detection, when it returns.\<close>

lemma compute_antimeridian_faces_Inr:
  assumes "compute_antimeridian_faces g threshold = Inr (faces, m)"
  obtains face_lon where
    "take_2d (Mesh2_node_x g) (map (map astype_int32) (Mesh2_face_nodes g)) = Inr face_lon"
    "face_lon \<noteq> []" "\<forall>row\<in>set face_lon. row \<noteq> []"
    "faces = filter (\<lambda>k. list_ex (\<lambda>b. b) (side_mask threshold (face_lon ! k @ [hd (face_lon ! k)])))
               [0..<length face_lon]"
    "length faces \<noteq> 1"
proof -
  from assms obtain face_lon where
    t: "take_2d (Mesh2_node_x g) (map (map astype_int32) (Mesh2_face_nodes g)) = Inr face_lon"
    by (auto simp: compute_antimeridian_faces_def split: sum.splits)
  from assms t obtain p where p: "np_pad_wrap face_lon = Inr p"
    by (auto simp: compute_antimeridian_faces_def split: sum.splits)
  note pw = np_pad_wrap_Inr [OF p]
  from assms t p have
    f: "tuple_squeeze (np_argwhere (np_any_axis1 (map (side_mask threshold) (butlast p)))) = Inr faces"
    by (auto simp: compute_antimeridian_faces_def Let_def split: sum.splits)
  then have f': "faces = np_argwhere (np_any_axis1 (map (side_mask threshold) (butlast p)))"
    and l: "length faces \<noteq> 1"
    by (auto simp: tuple_squeeze_def split: if_splits)
  have "faces = filter (\<lambda>k. list_ex (\<lambda>b. b) (side_mask threshold (face_lon ! k @ [hd (face_lon ! k)])))
               [0..<length face_lon]"
    unfolding f' pw(1) np_argwhere_def np_any_axis1_def
    by (auto intro!: filter_cong)
  with t pw l show thesis
    by (intro that) auto
qed

lemmas detect_defs = compute_antimeridian_faces_def astype_int32_def np_index_def np_pad_wrap_def
     side_mask_def np_diff_def np_any_axis1_def np_argwhere_def tuple_squeeze_def squeeze_rows_def

lemma detect_seam:
  "compute_antimeridian_faces seam_grid 180 =
     Inr ([0, 1], Array2 [[True, False, True, False], [True, True, True, True]])"
  by (simp add: detect_defs seam_grid_def)

lemma detect_fill:
  "compute_antimeridian_faces fill_grid 180 =
     Inr ([0, 1], Array2 [[False, False, True, True], [False, False, True, True]])"
  by (simp add: detect_defs fill_grid_def)

lemma candidates_seam:
  "split_candidates seam_grid [0, 1] =
     Inr \<lparr>left_x = [[- 180, - 170, - 175, - 180], [- 180, - 180, - 180, - 180]],
          right_x = [[170, 180, 180, 175], [180, 180, 180, 180]],
          left_exclude = [False, True], right_exclude = [False, True]\<rparr>"
  by (simp add: split_candidates_def seam_grid_def astype_int64_def np_index_def np_clip_def)

text \<open>
  Claim C5, at the first input that the claim names. The only face of the grid has the
  longitudes 170, -170, -175, 175; the mask of its sides has a side above the threshold
  180, so the face is one that crosses. The indices are then built by
  \<^verbatim>\<open>tuple(np.argwhere(...).squeeze())\<close>, which for exactly one crossing face is the tuple of
  an array without axes: the detection raises \<^verbatim>\<open>TypeError\<close> and flags nothing. The
  face with the longitudes 10, 20, 30, 40 is not flagged: the detection returns no index.
\<close>

theorem compute_antimeridian_faces_single_crossing:
  "np_any_axis1 [side_mask 180 ([170, - 170, - 175, 175] @ [hd [170, - 170, - 175, 175]])] = [True] \<and>
   compute_antimeridian_faces (quad_grid [170, - 170, - 175, 175]) 180 = Inl TypeError \<and>
   compute_antimeridian_faces (quad_grid [10, 20, 30, 40]) 180 = Inr ([], Array2 [])"
  by (simp add: detect_defs quad_grid_def)

text \<open>
  Claim C9. When the detection, at the threshold 180 that the method uses, returns no
  crossing face, \<^verbatim>\<open>split_antimeridian_faces\<close> returns the tuple \<^verbatim>\<open>(None, None, None)\<close>.
\<close>

theorem split_antimeridian_faces_no_crossing:
  assumes "compute_antimeridian_faces g 180 = Inr ([], m)"
  shows "split_antimeridian_faces g = Inr NoneTriple"
  using assms by (simp add: split_antimeridian_faces_def)

lemma detect_quad_none:
  "compute_antimeridian_faces (quad_grid [10, 20, 30, 40]) 180 = Inr ([], Array2 [])"
  by (simp add: detect_defs quad_grid_def)

theorem split_antimeridian_faces_no_crossing_witness:
  "compute_antimeridian_faces (quad_grid [10, 20, 30, 40]) 180 = Inr ([], Array2 []) \<and>
   split_antimeridian_faces (quad_grid [10, 20, 30, 40]) = Inr NoneTriple"
  using split_antimeridian_faces_no_crossing [OF detect_quad_none] detect_quad_none by simp

lemma detect_quad_single:
  "compute_antimeridian_faces (quad_grid [170, - 170, - 175, 175]) 180 = Inl TypeError"
  by (simp add: detect_defs quad_grid_def)

text \<open>
  Claim C2, at a grid with crossing faces. In \<open>seam_grid\<close> both faces cross. The method
  computes the two candidates of each face, clipped, and the masks that exclude them: for
  the second face both candidates are excluded, so no replacement polygon is left for it.
  The body then ends with \<^verbatim>\<open>pass\<close>: the method returns \<^verbatim>\<open>None\<close>, neither the replacement
  polygons nor an exception for the second face. On the grid whose only face crosses, the
  detection that the method calls first raises \<^verbatim>\<open>TypeError\<close>, and so does the method.
\<close>

theorem split_antimeridian_faces_returns_None:
  "compute_antimeridian_faces seam_grid 180 =
     Inr ([0, 1], Array2 [[True, False, True, False], [True, True, True, True]]) \<and>
   split_candidates seam_grid [0, 1] =
     Inr \<lparr>left_x = [[- 180, - 170, - 175, - 180], [- 180, - 180, - 180, - 180]],
          right_x = [[170, 180, 180, 175], [180, 180, 180, 180]],
          left_exclude = [False, True], right_exclude = [False, True]\<rparr> \<and>
   split_antimeridian_faces seam_grid = Inr NoneValue \<and>
   split_antimeridian_faces (quad_grid [170, - 170, - 175, 175]) = Inl TypeError"
proof -
  have "split_antimeridian_faces seam_grid = Inr NoneValue"
    by (simp add: split_antimeridian_faces_def detect_seam candidates_seam del: One_nat_def)
  moreover have "split_antimeridian_faces (quad_grid [170, - 170, - 175, 175]) = Inl TypeError"
    by (simp add: split_antimeridian_faces_def detect_quad_single)
  ultimately show ?thesis
    using detect_seam candidates_seam by blast
qed

lemma np_index_fill:
  assumes "np_index a (astype_int32 (- 1)) = Inr v"
  shows "v = last a"
proof -
  have c: "astype_int32 (- 1) = - 1" by (simp add: astype_int32_def)
  from assms have "a \<noteq> []"
    unfolding c by (auto simp: np_index_def)
  with assms show ?thesis
    unfolding c by (simp add: np_index_def Let_def last_conv_nth nat_diff_distrib' split: if_splits)
qed

text \<open>
  Claim C10. When the detection returns, the longitudes it tested were gathered through
  every column of the face-node table, each entry cast to \<^verbatim>\<open>int32\<close> and used as an
  index: the row of longitudes of a face is as long as its row of the table, an entry
  \<open>-1\<close> gathers the longitude of the last node, and a face is among the crossing faces
  exactly when some side of that whole row, closed cyclically, exceeds the threshold.
\<close>

theorem compute_antimeridian_faces_fill_slots:
  assumes "compute_antimeridian_faces g threshold = Inr (faces, m)"
  shows "\<exists>face_lon.
     take_2d (Mesh2_node_x g) (map (map astype_int32) (Mesh2_face_nodes g)) = Inr face_lon \<and>
     length face_lon = length (Mesh2_face_nodes g) \<and>
     (\<forall>k<length (Mesh2_face_nodes g).
        length (face_lon ! k) = length (Mesh2_face_nodes g ! k) \<and>
        (\<forall>j<length (Mesh2_face_nodes g ! k).
           np_index (Mesh2_node_x g) (astype_int32 (Mesh2_face_nodes g ! k ! j))
             = Inr (face_lon ! k ! j) \<and>
           (Mesh2_face_nodes g ! k ! j = - 1 \<longrightarrow> face_lon ! k ! j = last (Mesh2_node_x g))) \<and>
        (k \<in> set faces \<longleftrightarrow>
           (\<exists>j<length (Mesh2_face_nodes g ! k).
              threshold < \<bar>face_lon ! k ! (Suc j mod length (Mesh2_face_nodes g ! k))
                            - face_lon ! k ! j\<bar>)))"
proof -
  from assms obtain face_lon where
    t: "take_2d (Mesh2_node_x g) (map (map astype_int32) (Mesh2_face_nodes g)) = Inr face_lon"
    and ne: "\<forall>row\<in>set face_lon. row \<noteq> []"
    and f: "faces = filter (\<lambda>k. list_ex (\<lambda>b. b)
                                 (side_mask threshold (face_lon ! k @ [hd (face_lon ! k)])))
               [0..<length face_lon]"
    by (rule compute_antimeridian_faces_Inr)
  from take_2d_Inr [OF t] have len: "length face_lon = length (Mesh2_face_nodes g)"
    and rows: "\<And>k. k < length (Mesh2_face_nodes g) \<Longrightarrow>
                take_1d (Mesh2_node_x g) (map astype_int32 (Mesh2_face_nodes g ! k))
                  = Inr (face_lon ! k)"
    by simp_all
  have face: "length (face_lon ! k) = length (Mesh2_face_nodes g ! k) \<and>
        (\<forall>j<length (Mesh2_face_nodes g ! k).
           np_index (Mesh2_node_x g) (astype_int32 (Mesh2_face_nodes g ! k ! j))
             = Inr (face_lon ! k ! j) \<and>
           (Mesh2_face_nodes g ! k ! j = - 1 \<longrightarrow> face_lon ! k ! j = last (Mesh2_node_x g))) \<and>
        (k \<in> set faces \<longleftrightarrow>
           (\<exists>j<length (Mesh2_face_nodes g ! k).
              threshold < \<bar>face_lon ! k ! (Suc j mod length (Mesh2_face_nodes g ! k))
                            - face_lon ! k ! j\<bar>))"
    if k: "k < length (Mesh2_face_nodes g)" for k
  proof -
    from take_1d_Inr [OF rows [OF k]] have
      l: "length (face_lon ! k) = length (Mesh2_face_nodes g ! k)"
      and e: "\<And>j. j < length (Mesh2_face_nodes g ! k) \<Longrightarrow>
                np_index (Mesh2_node_x g) (astype_int32 (Mesh2_face_nodes g ! k ! j))
                  = Inr (face_lon ! k ! j)"
      by simp_all
    have fill: "face_lon ! k ! j = last (Mesh2_node_x g)"
      if "j < length (Mesh2_face_nodes g ! k)" "Mesh2_face_nodes g ! k ! j = - 1" for j
      using e [OF that(1)] that(2) by (simp add: np_index_fill)
    from k len ne have "face_lon ! k \<noteq> []" by simp
    from any_side_mask [OF this, of threshold] k len
    have "k \<in> set faces \<longleftrightarrow>
           (\<exists>j<length (face_lon ! k).
              threshold < \<bar>face_lon ! k ! (Suc j mod length (face_lon ! k)) - face_lon ! k ! j\<bar>)"
      by (simp add: f)
    with l e fill show ?thesis by simp
  qed
  from t len face show ?thesis by blast
qed

lemma take_fill:
  "take_2d (Mesh2_node_x fill_grid) (map (map astype_int32) (Mesh2_face_nodes fill_grid)) =
     Inr [[10, 20, 15, - 179], [20, 30, 25, - 179]]"
  by (simp add: fill_grid_def astype_int32_def np_index_def)

theorem compute_antimeridian_faces_fill_slots_witness:
  "compute_antimeridian_faces fill_grid 180 =
     Inr ([0, 1], Array2 [[False, False, True, True], [False, False, True, True]]) \<and>
   Mesh2_face_nodes fill_grid ! 0 ! 3 = - 1 \<and>
   last (Mesh2_node_x fill_grid) = - 179 \<and>
   take_2d (Mesh2_node_x fill_grid) (map (map astype_int32) (Mesh2_face_nodes fill_grid)) =
     Inr [[10, 20, 15, - 179], [20, 30, 25, - 179]] \<and>
   (\<exists>j<length (Mesh2_face_nodes fill_grid ! 0).
      180 < \<bar>[10, 20, 15, - 179 :: real] ! (Suc j mod length (Mesh2_face_nodes fill_grid ! 0))
              - [10, 20, 15, - 179] ! j\<bar>) \<and>
   side_mask 180 ([10, 20, 15] @ [hd [10, 20, 15]]) = [False, False, False]"
proof -
  from compute_antimeridian_faces_fill_slots [OF detect_fill] obtain face_lon where
    t: "take_2d (Mesh2_node_x fill_grid) (map (map astype_int32) (Mesh2_face_nodes fill_grid))
          = Inr face_lon"
    and a: "\<forall>k<length (Mesh2_face_nodes fill_grid).
        (k \<in> set [0, 1 :: nat] \<longleftrightarrow>
           (\<exists>j<length (Mesh2_face_nodes fill_grid ! k).
              180 < \<bar>face_lon ! k ! (Suc j mod length (Mesh2_face_nodes fill_grid ! k))
                            - face_lon ! k ! j\<bar>))"
    by blast
  from t have "face_lon = [[10, 20, 15, - 179], [20, 30, 25, - 179]]"
    by (simp add: take_fill)
  then have fl: "face_lon ! 0 = [10, 20, 15, - 179]"
    by simp
  have "0 < length (Mesh2_face_nodes fill_grid)" by (simp add: fill_grid_def)
  with a have "0 \<in> set [0, 1 :: nat] \<longleftrightarrow>
           (\<exists>j<length (Mesh2_face_nodes fill_grid ! 0).
              180 < \<bar>face_lon ! 0 ! (Suc j mod length (Mesh2_face_nodes fill_grid ! 0))
                            - face_lon ! 0 ! j\<bar>)"
    by blast
  moreover have "0 \<in> set [0, 1 :: nat]" by simp
  ultimately have 1: "\<exists>j<length (Mesh2_face_nodes fill_grid ! 0).
      180 < \<bar>[10, 20, 15, - 179 :: real] ! (Suc j mod length (Mesh2_face_nodes fill_grid ! 0))
              - [10, 20, 15, - 179] ! j\<bar>"
    unfolding fl by blast
  have 2: "Mesh2_face_nodes fill_grid ! 0 ! 3 = - 1" "last (Mesh2_node_x fill_grid) = - 179"
    by (simp_all add: fill_grid_def)
  have 3: "side_mask 180 ([10, 20, 15] @ [hd [10, 20, 15]]) = [False, False, False]"
    by (simp add: side_mask_def np_diff_def)
  from detect_fill take_fill 1 2 3 show ?thesis by blast
qed

end
